theory Spec2Isabelle
  imports Complex_Main
begin

section \<open>Constants of data_generation.py\<close>

text \<open>
  Python's numbers are modelled as mathematical reals: the model does not follow the
  rounding of IEEE doubles, and has no NaN and no infinity.
\<close>

definition IMAGE_HEIGHT :: nat where
  "IMAGE_HEIGHT = 16"

definition IMAGE_WIDTH :: nat where
  "IMAGE_WIDTH = 16"

definition SHAPE_SIDE_LENGTH :: nat where
  "SHAPE_SIDE_LENGTH = 0"

definition FPS :: nat where
  "FPS = 60"

type_synonym vec = "real \<times> real"

section \<open>The part of pymunk that simulate_motion uses\<close>

text \<open>
  A body carries its mass, its moment of inertia, its position and its velocity.
  A shape is attached either to a dynamic body or to the static body of the space, has
  a geometry (a box given by its size, or a segment given by its two end points and its
  radius) and an elasticity. A space has a gravity vector and the bodies and shapes
  added to it, in the order of the calls of \<open>space.add\<close>.
\<close>

record body =
  body_mass :: real
  body_moment :: real
  body_position :: vec
  body_velocity :: vec

datatype attachment = Static_body | Dynamic_body body

datatype geometry = Box vec | Seg vec vec real

record shape =
  shape_body :: attachment
  shape_geometry :: geometry
  shape_elasticity :: real

record space =
  space_gravity :: vec
  space_bodies :: "body list"
  space_shapes :: "shape list"

text \<open>\<open>pymunk.Space()\<close>: no gravity, nothing added.\<close>

definition Space :: space where
  "Space = \<lparr>space_gravity = (0, 0), space_bodies = [], space_shapes = []\<rparr>"

text \<open>\<open>pymunk.moment_for_box(mass, (width, height))\<close>.\<close>

definition moment_for_box :: "real \<Rightarrow> vec \<Rightarrow> real" where
  "moment_for_box m sz = m * (fst sz * fst sz + snd sz * snd sz) / 12"

text \<open>\<open>pymunk.Body(mass, moment)\<close>: at the origin, at rest.\<close>

definition Body :: "real \<Rightarrow> real \<Rightarrow> body" where
  "Body m i = \<lparr>body_mass = m, body_moment = i, body_position = (0, 0), body_velocity = (0, 0)\<rparr>"

text \<open>\<open>pymunk.Poly.create_box(body, size)\<close> and
  \<open>pymunk.Segment(body, a, b, radius)\<close>: a new shape has elasticity 0.\<close>

definition create_box :: "attachment \<Rightarrow> vec \<Rightarrow> shape" where
  "create_box b sz = \<lparr>shape_body = b, shape_geometry = Box sz, shape_elasticity = 0\<rparr>"

definition Segment :: "attachment \<Rightarrow> vec \<Rightarrow> vec \<Rightarrow> real \<Rightarrow> shape" where
  "Segment b p q r = \<lparr>shape_body = b, shape_geometry = Seg p q r, shape_elasticity = 0\<rparr>"

definition add_body :: "body \<Rightarrow> space \<Rightarrow> space" where
  "add_body b sp = sp\<lparr>space_bodies := space_bodies sp @ [b]\<rparr>"

definition add_shape :: "shape \<Rightarrow> space \<Rightarrow> space" where
  "add_shape s sp = sp\<lparr>space_shapes := space_shapes sp @ [s]\<rparr>"

text \<open>
  \<open>space.step(dt)\<close> is the solver of the physics library, which is no part of
  this program. The model takes it as a parameter: \<open>step sp dt\<close> is the state in
  which \<open>sp.step(dt)\<close> leaves the body that was added to \<open>sp\<close>.
\<close>

type_synonym engine = "space \<Rightarrow> real \<Rightarrow> body"

section \<open>simulate_motion\<close>

text \<open>The four boundary segments, in the order of the list \<open>static_lines\<close>.\<close>

definition static_lines :: "shape list" where
  "static_lines =
     [Segment Static_body (0, 0) (0, real IMAGE_HEIGHT) 1,
      Segment Static_body (0, real IMAGE_HEIGHT) (real IMAGE_WIDTH, real IMAGE_HEIGHT) 1,
      Segment Static_body (real IMAGE_WIDTH, real IMAGE_HEIGHT) (real IMAGE_WIDTH, 0) 1,
      Segment Static_body (real IMAGE_WIDTH, 0) (0, 0) 1]"

text \<open>
  Lines 32 to 59 of the source: the space that simulate_motion builds before it calls
  \<open>space.step\<close>.
\<close>

definition scene :: "vec \<Rightarrow> vec \<Rightarrow> real \<Rightarrow> real \<Rightarrow> space" where
  "scene initial_pos velocity gravity restitution =
     (let space0 = Space\<lparr>space_gravity := (0, - gravity)\<rparr>;
          side = real (SHAPE_SIDE_LENGTH + 1);
          body0 = (Body 1 (moment_for_box 1 (side, side)))
                    \<lparr>body_position := initial_pos, body_velocity := velocity\<rparr>;
          shape0 = (create_box (Dynamic_body body0) (side, side))
                     \<lparr>shape_elasticity := restitution\<rparr>;
          space1 = add_shape shape0 (add_body body0 space0)
      in fold (\<lambda>line sp. add_shape (line\<lparr>shape_elasticity := restitution\<rparr>) sp)
           static_lines space1)"

definition simulate_motion :: "engine \<Rightarrow> vec \<Rightarrow> vec \<Rightarrow> real \<Rightarrow> real \<Rightarrow> real \<Rightarrow> vec \<times> vec" where
  "simulate_motion step initial_pos velocity gravity restitution time_step =
     (let body1 = step (scene initial_pos velocity gravity restitution) time_step;
          new_pos = body_position body1;
          new_vel = body_velocity body1
      in (new_pos, new_vel))"

text \<open>The body that simulate_motion adds to its space.\<close>

definition the_body :: "vec \<Rightarrow> vec \<Rightarrow> body" where
  "the_body p v =
     \<lparr>body_mass = 1,
      body_moment = moment_for_box 1 (real (SHAPE_SIDE_LENGTH + 1), real (SHAPE_SIDE_LENGTH + 1)),
      body_position = p, body_velocity = v\<rparr>"

section \<open>The part of PIL that draw_frame uses\<close>

text \<open>
  An image has a mode, a size (width, height) and its pixels, stored row by row from
  the top: the pixel at image position \<open>(i, j)\<close> is entry \<open>i\<close> of row \<open>j\<close>.
\<close>

datatype colour = Black | White

datatype pil_error = ValueError

record image =
  image_mode :: string
  image_size :: "nat \<times> nat"
  image_rows :: "colour list list"

text \<open>\<open>Image.new(mode, (width, height), colour)\<close>.\<close>

definition Image_new :: "string \<Rightarrow> nat \<times> nat \<Rightarrow> colour \<Rightarrow> image" where
  "Image_new mode sz c =
     \<lparr>image_mode = mode, image_size = sz, image_rows = replicate (snd sz) (replicate (fst sz) c)\<rparr>"

definition getpixel :: "image \<Rightarrow> nat \<times> nat \<Rightarrow> colour" where
  "getpixel im ij = image_rows im ! snd ij ! fst ij"

text \<open>
  The drawing code of PIL receives the corners as doubles and casts them to C integers,
  which drops the fractional part (rounds toward zero).
\<close>

definition c_int :: "real \<Rightarrow> int" where
  "c_int r = (if r < 0 then \<lceil>r\<rceil> else \<lfloor>r\<rfloor>)"

text \<open>
  A filled rectangle paints every pixel of the image whose column lies in \<open>x0..x1\<close>
  and whose row lies in \<open>y0..y1\<close>, both ends included; what lies outside the image is
  not painted.
\<close>

definition fill_row :: "int \<Rightarrow> int \<Rightarrow> colour \<Rightarrow> colour list \<Rightarrow> colour list" where
  "fill_row x0 x1 ink row =
     map (\<lambda>(i, c). if x0 \<le> int i \<and> int i \<le> x1 then ink else c) (enumerate 0 row)"

definition fill_rows ::
  "int \<Rightarrow> int \<Rightarrow> int \<Rightarrow> int \<Rightarrow> colour \<Rightarrow> colour list list \<Rightarrow> colour list list" where
  "fill_rows x0 y0 x1 y1 ink rows =
     map (\<lambda>(j, row). if y0 \<le> int j \<and> int j \<le> y1 then fill_row x0 x1 ink row else row)
       (enumerate 0 rows)"

text \<open>
  \<open>ImageDraw.Draw(image).rectangle([x0, y0, x1, y1], fill=ink)\<close>. PIL raises
  ValueError when the second corner lies before the first in either coordinate.
\<close>

definition rectangle :: "image \<Rightarrow> real \<times> real \<times> real \<times> real \<Rightarrow> colour \<Rightarrow> pil_error + image" where
  "rectangle im xy ink =
     (case xy of (x0, y0, x1, y1) \<Rightarrow>
        if x1 < x0 \<or> y1 < y0 then Inl ValueError
        else Inr (im\<lparr>image_rows :=
                    fill_rows (c_int x0) (c_int y0) (c_int x1) (c_int y1) ink (image_rows im)\<rparr>))"

section \<open>draw_frame\<close>

definition draw_frame :: "vec \<Rightarrow> pil_error + image" where
  "draw_frame position =
     (let image0 = Image_new ''1'' (IMAGE_WIDTH, IMAGE_HEIGHT) White;
          (x, y) = position
      in rectangle image0 (x, y, x + real SHAPE_SIDE_LENGTH, y + real SHAPE_SIDE_LENGTH) Black)"

text \<open>The white image that draw_frame starts from.\<close>

definition blank :: image where
  "blank = Image_new ''1'' (IMAGE_WIDTH, IMAGE_HEIGHT) White"

text \<open>
  The rectangle as the specification words it: pixel \<open>(i, j)\<close> lies in the rectangle
  from \<open>(x, y)\<close> to \<open>(x + s, y + s)\<close>, both corners included.
\<close>

definition in_rectangle :: "real \<Rightarrow> real \<Rightarrow> nat \<Rightarrow> nat \<Rightarrow> bool" where
  "in_rectangle x y i j \<longleftrightarrow>
     x \<le> real i \<and> real i \<le> x + real SHAPE_SIDE_LENGTH
     \<and> y \<le> real j \<and> real j \<le> y + real SHAPE_SIDE_LENGTH"

section \<open>generate_sequence\<close>

text \<open>
  The inner loop: \<open>frame_rate\<close> calls of simulate_motion, each with the time step
  \<open>1.0 / 60\<close>, each starting from the position and velocity the call before returned.
\<close>

fun substeps :: "engine \<Rightarrow> nat \<Rightarrow> real \<Rightarrow> real \<Rightarrow> vec \<times> vec \<Rightarrow> vec \<times> vec" where
  "substeps step 0 gravity restitution pv = pv"
| "substeps step (Suc k) gravity restitution (position, velocity) =
     substeps step k gravity restitution
       (simulate_motion step position velocity gravity restitution (1 / 60))"

text \<open>
  The outer loop, with the lists \<open>images\<close> and \<open>positions\<close> as accumulators. An
  exception raised by draw_frame ends the run.
\<close>

fun frames ::
  "engine \<Rightarrow> nat \<Rightarrow> nat \<Rightarrow> real \<Rightarrow> real \<Rightarrow> vec \<times> vec \<Rightarrow> image list \<times> vec list
     \<Rightarrow> pil_error + image list \<times> vec list" where
  "frames step 0 frame_rate gravity restitution pv acc = Inr acc"
| "frames step (Suc n) frame_rate gravity restitution pv (images, positions) =
     (let (position, velocity) = substeps step frame_rate gravity restitution pv;
          adjusted_position =
            (fst position, real IMAGE_HEIGHT - snd position - real SHAPE_SIDE_LENGTH)
      in case draw_frame adjusted_position of
           Inl err \<Rightarrow> Inl err
         | Inr img \<Rightarrow>
             frames step n frame_rate gravity restitution (position, velocity)
               (images @ [img], positions @ [position]))"

text \<open>
  \<open>range(n)\<close> is empty for a negative \<open>n\<close>, so both loop counts go through
  \<open>nat\<close>.
\<close>

definition generate_sequence ::
  "engine \<Rightarrow> int \<Rightarrow> real \<Rightarrow> real \<Rightarrow> vec \<Rightarrow> real \<Rightarrow> real \<Rightarrow> int
     \<Rightarrow> pil_error + image list \<times> vec list" where
  "generate_sequence step sequence_length initial_speed initial_direction initial_position
       gravity coefficient_of_restitution frame_rate =
     (let velocity =
            (initial_speed * cos initial_direction, - initial_speed * sin initial_direction)
      in frames step (nat sequence_length) (nat frame_rate) gravity coefficient_of_restitution
           (initial_position, velocity) ([], []))"

section \<open>Two properties of a solver, and a solver to compute with\<close>

text \<open>
  A solver keeps a resting body at rest when, in a scene without gravity whose body has
  no velocity, a step leaves the body where it is and leaves its velocity zero.
\<close>

definition rest_stays :: "engine \<Rightarrow> bool" where
  "rest_stays step \<longleftrightarrow>
     (\<forall>p e dt. body_position (step (scene p (0, 0) 0 e) dt) = p
              \<and> body_velocity (step (scene p (0, 0) 0 e) dt) = (0, 0))"

text \<open>
  A solver that knows no contacts, to run the program on concrete inputs: the body
  moves by its velocity for the time of the step, and gravity is added to its velocity.
\<close>

definition free_flight :: engine where
  "free_flight sp dt =
     (case space_bodies sp of
        [] \<Rightarrow> Body 0 0
      | b # _ \<Rightarrow>
          b\<lparr>body_position :=
               (fst (body_position b) + fst (body_velocity b) * dt,
                snd (body_position b) + snd (body_velocity b) * dt),
             body_velocity :=
               (fst (body_velocity b) + fst (space_gravity sp) * dt,
                snd (body_velocity b) + snd (space_gravity sp) * dt)\<rparr>)"

section \<open>generate_sequence over a solver that may not be a function\<close>

text \<open>
  To speak about determinism the solver is taken as a relation: \<open>R sp dt b\<close> says
  that \<open>sp.step(dt)\<close> may leave the body in state \<open>b\<close>. The three predicates below
  follow simulate_motion, the inner loop and the outer loop of generate_sequence line
  by line; their last argument is a possible result.
\<close>

type_synonym solver = "space \<Rightarrow> real \<Rightarrow> body \<Rightarrow> bool"

inductive simulate_motion_nd ::
  "solver \<Rightarrow> vec \<Rightarrow> vec \<Rightarrow> real \<Rightarrow> real \<Rightarrow> real \<Rightarrow> vec \<times> vec \<Rightarrow> bool"
  for R :: solver where
  "R (scene initial_pos velocity gravity restitution) time_step body1 \<Longrightarrow>
   simulate_motion_nd R initial_pos velocity gravity restitution time_step
     (body_position body1, body_velocity body1)"

inductive substeps_nd ::
  "solver \<Rightarrow> nat \<Rightarrow> real \<Rightarrow> real \<Rightarrow> vec \<times> vec \<Rightarrow> vec \<times> vec \<Rightarrow> bool"
  for R :: solver where
  "substeps_nd R 0 gravity restitution pv pv"
| "simulate_motion_nd R position velocity gravity restitution (1 / 60) pv' \<Longrightarrow>
   substeps_nd R k gravity restitution pv' pv'' \<Longrightarrow>
   substeps_nd R (Suc k) gravity restitution (position, velocity) pv''"

inductive frames_nd ::
  "solver \<Rightarrow> nat \<Rightarrow> nat \<Rightarrow> real \<Rightarrow> real \<Rightarrow> vec \<times> vec \<Rightarrow> image list \<times> vec list
     \<Rightarrow> pil_error + image list \<times> vec list \<Rightarrow> bool"
  for R :: solver where
  "frames_nd R 0 frame_rate gravity restitution pv acc (Inr acc)"
| "substeps_nd R frame_rate gravity restitution pv (position, velocity) \<Longrightarrow>
   draw_frame (fst position, real IMAGE_HEIGHT - snd position - real SHAPE_SIDE_LENGTH) = Inl err \<Longrightarrow>
   frames_nd R (Suc n) frame_rate gravity restitution pv acc (Inl err)"
| "substeps_nd R frame_rate gravity restitution pv (position, velocity) \<Longrightarrow>
   draw_frame (fst position, real IMAGE_HEIGHT - snd position - real SHAPE_SIDE_LENGTH) = Inr img \<Longrightarrow>
   frames_nd R n frame_rate gravity restitution (position, velocity)
     (images @ [img], positions @ [position]) result \<Longrightarrow>
   frames_nd R (Suc n) frame_rate gravity restitution pv (images, positions) result"

definition generate_sequence_nd ::
  "solver \<Rightarrow> int \<Rightarrow> real \<Rightarrow> real \<Rightarrow> vec \<Rightarrow> real \<Rightarrow> real \<Rightarrow> int
     \<Rightarrow> pil_error + image list \<times> vec list \<Rightarrow> bool" where
  "generate_sequence_nd R sequence_length initial_speed initial_direction initial_position
       gravity coefficient_of_restitution frame_rate result =
     frames_nd R (nat sequence_length) (nat frame_rate) gravity coefficient_of_restitution
       (initial_position,
        (initial_speed * cos initial_direction, - initial_speed * sin initial_direction))
       ([], []) result"

definition deterministic :: "solver \<Rightarrow> bool" where
  "deterministic R \<longleftrightarrow> (\<forall>sp dt b b'. R sp dt b \<longrightarrow> R sp dt b' \<longrightarrow> b = b')"

definition run :: "engine \<Rightarrow> solver" where
  "run step sp dt b \<longleftrightarrow> b = step sp dt"

section \<open>generate_random_sequence\<close>

text \<open>
  The keyword arguments of generate_random_sequence, and their default values as the
  signature gives them.
\<close>

record sampler_args =
  sequence_length :: int
  frame_rate :: int
  speed_min :: real
  speed_max :: real
  direction_min :: real
  direction_max :: real
  position_x_min :: real
  position_x_max :: real
  position_y_min :: real
  position_y_max :: real
  gravity_min :: real
  gravity_max :: real
  restitution_min :: real
  restitution_max :: real

definition default_args :: sampler_args where
  "default_args =
     \<lparr>sequence_length = 10, frame_rate = 30,
      speed_min = 0, speed_max = 10,
      direction_min = 0, direction_max = 2 * pi,
      position_x_min = 0, position_x_max = 16,
      position_y_min = 0, position_y_max = 16,
      gravity_min = 5, gravity_max = 10,
      restitution_min = 1 / 2, restitution_max = 1\<rparr>"

text \<open>
  The state of numpy's random generator is the sequence of the numbers in \<open>[0, 1)\<close>
  it is going to draw. \<open>np.random.uniform(low, high)\<close> takes the next one, \<open>u\<close>,
  returns \<open>low + (high - low) * u\<close>, and leaves the rest.
\<close>

type_synonym rng = "nat \<Rightarrow> real"

definition uniform :: "real \<Rightarrow> real \<Rightarrow> rng \<Rightarrow> real \<times> rng" where
  "uniform low high r = (low + (high - low) * r 0, \<lambda>n. r (Suc n))"

definition generate_random_sequence ::
  "engine \<Rightarrow> sampler_args \<Rightarrow> rng \<Rightarrow> (pil_error + image list \<times> vec list) \<times> rng" where
  "generate_random_sequence step a r0 =
     (let (initial_speed, r1) = uniform (speed_min a) (speed_max a) r0;
          (initial_direction, r2) = uniform (direction_min a) (direction_max a) r1;
          (initial_position_x, r3) = uniform (position_x_min a) (position_x_max a) r2;
          (initial_position_y, r4) = uniform (position_y_min a) (position_y_max a) r3;
          (gravity, r5) = uniform (gravity_min a) (gravity_max a) r4;
          (coefficient_of_restitution, r6) = uniform (restitution_min a) (restitution_max a) r5
      in (generate_sequence step (sequence_length a) initial_speed initial_direction
            (initial_position_x, initial_position_y) gravity coefficient_of_restitution
            (frame_rate a),
          r6))"

text \<open>
  The pairs of bounds that generate_random_sequence samples from, in the order of its
  calls of \<open>np.random.uniform\<close>, and the value that the \<open>i\<close>-th call returns.
\<close>

definition range_pairs :: "sampler_args \<Rightarrow> (real \<times> real) list" where
  "range_pairs a =
     [(speed_min a, speed_max a), (direction_min a, direction_max a),
      (position_x_min a, position_x_max a), (position_y_min a, position_y_max a),
      (gravity_min a, gravity_max a), (restitution_min a, restitution_max a)]"

definition sample :: "sampler_args \<Rightarrow> rng \<Rightarrow> nat \<Rightarrow> real" where
  "sample a r i =
     fst (range_pairs a ! i) + (snd (range_pairs a ! i) - fst (range_pairs a ! i)) * r i"

section \<open>The scene of one step\<close>

lemma scene_gravity: "space_gravity (scene p v g e) = (0, - g)"
  by (simp add: scene_def Let_def static_lines_def add_shape_def add_body_def Space_def)

lemma scene_bodies: "space_bodies (scene p v g e) = [the_body p v]"
  by (simp add: scene_def Let_def static_lines_def add_shape_def add_body_def Space_def
      Body_def the_body_def)

lemma scene_shapes:
  "space_shapes (scene p v g e) =
     [\<lparr>shape_body = Dynamic_body (the_body p v),
       shape_geometry = Box (real (SHAPE_SIDE_LENGTH + 1), real (SHAPE_SIDE_LENGTH + 1)),
       shape_elasticity = e\<rparr>,
      \<lparr>shape_body = Static_body, shape_geometry = Seg (0, 0) (0, 16) 1,
       shape_elasticity = e\<rparr>,
      \<lparr>shape_body = Static_body, shape_geometry = Seg (0, 16) (16, 16) 1,
       shape_elasticity = e\<rparr>,
      \<lparr>shape_body = Static_body, shape_geometry = Seg (16, 16) (16, 0) 1,
       shape_elasticity = e\<rparr>,
      \<lparr>shape_body = Static_body, shape_geometry = Seg (16, 0) (0, 0) 1,
       shape_elasticity = e\<rparr>]"
  by (simp add: scene_def Let_def static_lines_def add_shape_def add_body_def Space_def
      Body_def the_body_def create_box_def Segment_def IMAGE_HEIGHT_def IMAGE_WIDTH_def)

text \<open>
  C4. Every call of the motion stepper builds a new space with gravity
  \<open>(0, - gravity)\<close>, exactly one dynamic body (mass 1, moment of inertia of a box of
  side \<open>s + 1\<close>, the given position and velocity), the body's box shape of side
  \<open>s + 1\<close>, and four segments on the static body that run along the four edges of the
  16 by 16 rectangle; the box and the four segments all carry the given restitution as
  their elasticity. The space handed to the solver is this one.
\<close>

theorem simulate_motion_scene:
  "simulate_motion step p v g e dt =
     (body_position (step (scene p v g e) dt), body_velocity (step (scene p v g e) dt))
   \<and> space_gravity (scene p v g e) = (0, - g)
   \<and> space_bodies (scene p v g e) =
       [\<lparr>body_mass = 1,
         body_moment = moment_for_box 1 (real (SHAPE_SIDE_LENGTH + 1), real (SHAPE_SIDE_LENGTH + 1)),
         body_position = p, body_velocity = v\<rparr>]
   \<and> space_shapes (scene p v g e) =
       [\<lparr>shape_body = Dynamic_body (the_body p v),
         shape_geometry = Box (real (SHAPE_SIDE_LENGTH + 1), real (SHAPE_SIDE_LENGTH + 1)),
         shape_elasticity = e\<rparr>,
        \<lparr>shape_body = Static_body,
         shape_geometry = Seg (0, 0) (0, real IMAGE_HEIGHT) 1, shape_elasticity = e\<rparr>,
        \<lparr>shape_body = Static_body,
         shape_geometry = Seg (0, real IMAGE_HEIGHT) (real IMAGE_WIDTH, real IMAGE_HEIGHT) 1,
         shape_elasticity = e\<rparr>,
        \<lparr>shape_body = Static_body,
         shape_geometry = Seg (real IMAGE_WIDTH, real IMAGE_HEIGHT) (real IMAGE_WIDTH, 0) 1,
         shape_elasticity = e\<rparr>,
        \<lparr>shape_body = Static_body,
         shape_geometry = Seg (real IMAGE_WIDTH, 0) (0, 0) 1, shape_elasticity = e\<rparr>]"
  by (simp add: simulate_motion_def Let_def scene_gravity scene_bodies scene_shapes
      the_body_def IMAGE_HEIGHT_def IMAGE_WIDTH_def)

section \<open>The frames that draw_frame returns\<close>

lemma length_fill_row: "length (fill_row x0 x1 ink row) = length row"
  by (simp add: fill_row_def)

lemma length_fill_rows: "length (fill_rows x0 y0 x1 y1 ink rows) = length rows"
  by (simp add: fill_rows_def)

lemma nth_fill_row:
  "i < length row \<Longrightarrow>
   fill_row x0 x1 ink row ! i = (if x0 \<le> int i \<and> int i \<le> x1 then ink else row ! i)"
  by (simp add: fill_row_def nth_enumerate_eq)

lemma nth_fill_rows:
  "j < length rows \<Longrightarrow>
   fill_rows x0 y0 x1 y1 ink rows ! j =
     (if y0 \<le> int j \<and> int j \<le> y1 then fill_row x0 x1 ink (rows ! j) else rows ! j)"
  by (simp add: fill_rows_def nth_enumerate_eq)

lemma set_fill_rows_length:
  "\<forall>row \<in> set rows. length row = w \<Longrightarrow> \<forall>row \<in> set (fill_rows x0 y0 x1 y1 ink rows). length row = w"
  by (auto simp: fill_rows_def enumerate_eq_zip length_fill_row dest!: set_zip_rightD)

lemma draw_frame_Inr:
  "draw_frame (x, y) =
     Inr (blank\<lparr>image_rows :=
            fill_rows (c_int x) (c_int y) (c_int (x + real SHAPE_SIDE_LENGTH))
              (c_int (y + real SHAPE_SIDE_LENGTH)) Black (image_rows blank)\<rparr>)"
  by (simp add: draw_frame_def rectangle_def blank_def Let_def)

lemma draw_frame_projr: "draw_frame p = Inr (projr (draw_frame p))"
  by (cases p) (simp add: draw_frame_Inr)

lemma getpixel_draw_frame:
  assumes "i < 16" "j < 16"
  shows "getpixel (projr (draw_frame (x, y))) (i, j) =
     (if c_int x \<le> int i \<and> int i \<le> c_int (x + real SHAPE_SIDE_LENGTH)
         \<and> c_int y \<le> int j \<and> int j \<le> c_int (y + real SHAPE_SIDE_LENGTH)
      then Black else White)"
proof -
  have rows: "image_rows blank = replicate 16 (replicate 16 White)"
    by (simp add: blank_def Image_new_def IMAGE_WIDTH_def IMAGE_HEIGHT_def)
  show ?thesis
    using assms
    by (simp add: draw_frame_Inr rows getpixel_def nth_fill_rows nth_fill_row)
qed

lemma draw_frame_shape:
  "image_mode (projr (draw_frame (x, y))) = ''1''"
  "image_size (projr (draw_frame (x, y))) = (IMAGE_WIDTH, IMAGE_HEIGHT)"
  "length (image_rows (projr (draw_frame (x, y)))) = 16"
  "\<forall>row \<in> set (image_rows (projr (draw_frame (x, y)))). length row = 16"
proof -
  have rows: "image_rows blank = replicate 16 (replicate 16 White)"
    by (simp add: blank_def Image_new_def IMAGE_WIDTH_def IMAGE_HEIGHT_def)
  show "image_mode (projr (draw_frame (x, y))) = ''1''"
    "image_size (projr (draw_frame (x, y))) = (IMAGE_WIDTH, IMAGE_HEIGHT)"
    by (simp_all add: draw_frame_Inr blank_def Image_new_def)
  show "length (image_rows (projr (draw_frame (x, y)))) = 16"
    by (simp add: draw_frame_Inr rows length_fill_rows)
  show "\<forall>row \<in> set (image_rows (projr (draw_frame (x, y)))). length row = 16"
    unfolding draw_frame_Inr sum.sel rows select_convs update_convs
    by (simp, rule set_fill_rows_length) simp
qed

text \<open>
  C6 as stated fails where a coordinate is no whole number. At the position
  \<open>(-1/2, 3)\<close> the rectangle from \<open>(x, y)\<close> to \<open>(x + s, y + s)\<close> lies left of the
  image and holds no pixel, and draw_frame paints pixel \<open>(0, 3)\<close>.
\<close>

theorem paints_outside_rectangle:
  "getpixel (projr (draw_frame (- 1 / 2, 3))) (0, 3) = Black
   \<and> \<not> in_rectangle (- 1 / 2) 3 0 3"
  by (simp add: getpixel_draw_frame c_int_def SHAPE_SIDE_LENGTH_def in_rectangle_def)

text \<open>
  C6, amended. For every position \<open>(x, y)\<close> in image coordinates, draw_frame returns an
  image of mode \<open>1\<close> (one bit per pixel) and size 16 by 16 that is white everywhere
  except the pixels whose column lies between \<open>x\<close> and \<open>x + s\<close> and whose row lies
  between \<open>y\<close> and \<open>y + s\<close>, each of the four bounds rounded toward zero to a whole
  number first and both ends included; these pixels are black. When \<open>x\<close> and \<open>y\<close>
  are whole numbers, these are the pixels of the rectangle from \<open>(x, y)\<close> to
  \<open>(x + s, y + s)\<close>.
\<close>

theorem draw_frame_pixels:
  "\<exists>im. draw_frame (x, y) = Inr im
      \<and> image_mode im = ''1'' \<and> image_size im = (16, 16)
      \<and> length (image_rows im) = 16 \<and> (\<forall>row \<in> set (image_rows im). length row = 16)
      \<and> (\<forall>i < 16. \<forall>j < 16.
            getpixel im (i, j) =
              (if (if x < 0 then \<lceil>x\<rceil> else \<lfloor>x\<rfloor>) \<le> int i
                  \<and> int i \<le> (if x + real SHAPE_SIDE_LENGTH < 0
                               then \<lceil>x + real SHAPE_SIDE_LENGTH\<rceil>
                               else \<lfloor>x + real SHAPE_SIDE_LENGTH\<rfloor>)
                  \<and> (if y < 0 then \<lceil>y\<rceil> else \<lfloor>y\<rfloor>) \<le> int j
                  \<and> int j \<le> (if y + real SHAPE_SIDE_LENGTH < 0
                               then \<lceil>y + real SHAPE_SIDE_LENGTH\<rceil>
                               else \<lfloor>y + real SHAPE_SIDE_LENGTH\<rfloor>)
               then Black else White))
      \<and> (x = of_int \<lfloor>x\<rfloor> \<and> y = of_int \<lfloor>y\<rfloor> \<longrightarrow>
           (\<forall>i < 16. \<forall>j < 16. getpixel im (i, j) = Black \<longleftrightarrow> in_rectangle x y i j))"
proof -
  let ?im = "projr (draw_frame (x, y))"
  have res: "draw_frame (x, y) = Inr ?im" by (rule draw_frame_projr)
  have a: "image_mode ?im = ''1''" "image_size ?im = (16, 16)"
    "length (image_rows ?im) = 16" "\<forall>row \<in> set (image_rows ?im). length row = 16"
    using draw_frame_shape [of x y] by (simp_all add: IMAGE_WIDTH_def IMAGE_HEIGHT_def)
  have d: "\<forall>i < 16. \<forall>j < 16.
            getpixel ?im (i, j) =
              (if (if x < 0 then \<lceil>x\<rceil> else \<lfloor>x\<rfloor>) \<le> int i
                  \<and> int i \<le> (if x + real SHAPE_SIDE_LENGTH < 0
                               then \<lceil>x + real SHAPE_SIDE_LENGTH\<rceil>
                               else \<lfloor>x + real SHAPE_SIDE_LENGTH\<rfloor>)
                  \<and> (if y < 0 then \<lceil>y\<rceil> else \<lfloor>y\<rfloor>) \<le> int j
                  \<and> int j \<le> (if y + real SHAPE_SIDE_LENGTH < 0
                               then \<lceil>y + real SHAPE_SIDE_LENGTH\<rceil>
                               else \<lfloor>y + real SHAPE_SIDE_LENGTH\<rfloor>)
               then Black else White)"
    using getpixel_draw_frame [of _ _ x y] by (simp add: c_int_def)
  have e: "x = of_int \<lfloor>x\<rfloor> \<and> y = of_int \<lfloor>y\<rfloor> \<longrightarrow>
           (\<forall>i < 16. \<forall>j < 16. getpixel ?im (i, j) = Black \<longleftrightarrow> in_rectangle x y i j)"
  proof (intro impI allI)
    fix i j :: nat
    assume int: "x = of_int \<lfloor>x\<rfloor> \<and> y = of_int \<lfloor>y\<rfloor>" and i: "i < 16" and j: "j < 16"
    obtain a b :: int where x: "x = of_int a" and y: "y = of_int b"
      using int by blast
    have tr: "c_int (of_int a) = a" "c_int (of_int b) = b"
        "c_int (of_int a + real SHAPE_SIDE_LENGTH) = a + int SHAPE_SIDE_LENGTH"
        "c_int (of_int b + real SHAPE_SIDE_LENGTH) = b + int SHAPE_SIDE_LENGTH"
      by (simp_all add: c_int_def SHAPE_SIDE_LENGTH_def)
    have cmp: "\<And>(c::int) (k::nat). (real_of_int c \<le> real k) = (c \<le> int k)"
        "\<And>(c::int) (k::nat). (real k \<le> real_of_int c + real SHAPE_SIDE_LENGTH)
            = (int k \<le> c + int SHAPE_SIDE_LENGTH)"
      by linarith+
    show "getpixel ?im (i, j) = Black \<longleftrightarrow> in_rectangle x y i j"
      using i j unfolding x y
      by (simp add: getpixel_draw_frame tr in_rectangle_def cmp)
  qed
  from res a d e show ?thesis by blast
qed


text \<open>
  The position \<open>(8.75, 5.25)\<close> paints pixel \<open>(8, 5)\<close> alone; the position \<open>(8, 5)\<close>
  has whole coordinates, and paints the rectangle.
\<close>

theorem draw_frame_pixels_witness:
  "(\<exists>im. draw_frame (35 / 4, 21 / 4) = Inr im
      \<and> image_mode im = ''1'' \<and> image_size im = (16, 16)
      \<and> getpixel im (8, 5) = Black \<and> getpixel im (9, 5) = White
      \<and> getpixel im (8, 6) = White \<and> getpixel im (9, 6) = White
      \<and> getpixel im (0, 0) = White)
   \<and> (\<exists>im. draw_frame (8, 5) = Inr im
      \<and> (8::real) = of_int \<lfloor>8::real\<rfloor> \<and> (5::real) = of_int \<lfloor>5::real\<rfloor>
      \<and> in_rectangle 8 5 8 5 \<and> getpixel im (8, 5) = Black
      \<and> \<not> in_rectangle 8 5 9 5 \<and> getpixel im (9, 5) = White)"
proof -
  obtain im where im: "draw_frame (35 / 4, 21 / 4) = Inr im"
      "image_mode im = ''1''" "image_size im = (16, 16)"
      and px: "\<forall>i < 16. \<forall>j < 16.
            getpixel im (i, j) =
              (if (if (35 / 4 :: real) < 0 then \<lceil>35 / 4 :: real\<rceil> else \<lfloor>35 / 4 :: real\<rfloor>) \<le> int i
                  \<and> int i \<le> (if 35 / 4 + real SHAPE_SIDE_LENGTH < 0
                               then \<lceil>35 / 4 + real SHAPE_SIDE_LENGTH\<rceil>
                               else \<lfloor>35 / 4 + real SHAPE_SIDE_LENGTH\<rfloor>)
                  \<and> (if (21 / 4 :: real) < 0 then \<lceil>21 / 4 :: real\<rceil> else \<lfloor>21 / 4 :: real\<rfloor>) \<le> int j
                  \<and> int j \<le> (if 21 / 4 + real SHAPE_SIDE_LENGTH < 0
                               then \<lceil>21 / 4 + real SHAPE_SIDE_LENGTH\<rceil>
                               else \<lfloor>21 / 4 + real SHAPE_SIDE_LENGTH\<rfloor>)
               then Black else White)"
    using draw_frame_pixels [of "35 / 4" "21 / 4"] by blast
  have frac: "getpixel im (8, 5) = Black" "getpixel im (9, 5) = White"
      "getpixel im (8, 6) = White" "getpixel im (9, 6) = White" "getpixel im (0, 0) = White"
    using px by (simp_all add: SHAPE_SIDE_LENGTH_def)
  have whole: "(8::real) = of_int \<lfloor>8::real\<rfloor> \<and> (5::real) = of_int \<lfloor>5::real\<rfloor>"
    by simp
  obtain im' where im': "draw_frame (8, 5) = Inr im'"
      and rect: "\<forall>i < 16. \<forall>j < 16. getpixel im' (i, j) = Black \<longleftrightarrow> in_rectangle 8 5 i j"
    using draw_frame_pixels [of 8 5] whole by blast
  have inside: "in_rectangle 8 5 8 5" and outside: "\<not> in_rectangle 8 5 9 5"
    by (simp_all add: in_rectangle_def SHAPE_SIDE_LENGTH_def)
  have "getpixel im' (8, 5) = Black" using rect inside by simp
  moreover have "getpixel im' (9, 5) \<noteq> Black" using rect outside by simp
  then have "getpixel im' (9, 5) = White" by (cases "getpixel im' (9, 5)") simp_all
  ultimately show ?thesis using im frac im' whole inside outside by blast
qed

text \<open>
  C7 as stated fails for a rectangle that lies less than one pixel outside the left or
  the upper edge. At the position \<open>(-1/2, -1/2)\<close> the whole rectangle lies outside the
  image, and draw_frame paints pixel \<open>(0, 0)\<close>: rounding toward zero moves the
  rectangle into the image before it is clipped.
\<close>

theorem paints_rectangle_outside_image:
  "getpixel (projr (draw_frame (- 1 / 2, - 1 / 2))) (0, 0) = Black
   \<and> - 1 / 2 + real SHAPE_SIDE_LENGTH < 0"
  by (simp add: getpixel_draw_frame c_int_def SHAPE_SIDE_LENGTH_def)


text \<open>
  C7, amended. For every position, also one outside the image, draw_frame raises no
  error and returns an image of mode \<open>1\<close> with 16 rows of 16 pixels. The rectangle is
  clipped after its corners are rounded toward zero: the black pixels are the pixels of
  the image that lie in the rounded rectangle. So a rectangle that lies at or beyond the
  right or lower edge of the image, or at least one pixel outside its left or upper
  edge, paints nothing.
\<close>

theorem draw_frame_clips:
  "\<exists>im. draw_frame (x, y) = Inr im
      \<and> image_mode im = ''1'' \<and> image_size im = (IMAGE_WIDTH, IMAGE_HEIGHT)
      \<and> map length (image_rows im) = replicate IMAGE_HEIGHT IMAGE_WIDTH
      \<and> {(i, j). i < IMAGE_WIDTH \<and> j < IMAGE_HEIGHT \<and> getpixel im (i, j) = Black} =
          {(i, j). i < IMAGE_WIDTH \<and> j < IMAGE_HEIGHT
             \<and> (if x < 0 then \<lceil>x\<rceil> else \<lfloor>x\<rfloor>) \<le> int i
             \<and> int i \<le> (if x + real SHAPE_SIDE_LENGTH < 0
                          then \<lceil>x + real SHAPE_SIDE_LENGTH\<rceil>
                          else \<lfloor>x + real SHAPE_SIDE_LENGTH\<rfloor>)
             \<and> (if y < 0 then \<lceil>y\<rceil> else \<lfloor>y\<rfloor>) \<le> int j
             \<and> int j \<le> (if y + real SHAPE_SIDE_LENGTH < 0
                          then \<lceil>y + real SHAPE_SIDE_LENGTH\<rceil>
                          else \<lfloor>y + real SHAPE_SIDE_LENGTH\<rfloor>)}
      \<and> (x + real SHAPE_SIDE_LENGTH \<le> - 1 \<or> real IMAGE_WIDTH \<le> x
           \<or> y + real SHAPE_SIDE_LENGTH \<le> - 1 \<or> real IMAGE_HEIGHT \<le> y \<longrightarrow>
          {(i, j). i < IMAGE_WIDTH \<and> j < IMAGE_HEIGHT \<and> getpixel im (i, j) = Black} = {})"
proof -
  let ?im = "projr (draw_frame (x, y))"
  have res: "draw_frame (x, y) = Inr ?im" by (rule draw_frame_projr)
  have a: "image_mode ?im = ''1''" "image_size ?im = (IMAGE_WIDTH, IMAGE_HEIGHT)"
    by (rule draw_frame_shape)+
  have b: "map length (image_rows ?im) = replicate IMAGE_HEIGHT IMAGE_WIDTH"
    unfolding IMAGE_WIDTH_def IMAGE_HEIGHT_def
    using draw_frame_shape(3,4) [of x y] by (intro nth_equalityI) simp_all
  have e: "{(i, j). i < IMAGE_WIDTH \<and> j < IMAGE_HEIGHT \<and> getpixel ?im (i, j) = Black} =
          {(i, j). i < IMAGE_WIDTH \<and> j < IMAGE_HEIGHT
             \<and> (if x < 0 then \<lceil>x\<rceil> else \<lfloor>x\<rfloor>) \<le> int i
             \<and> int i \<le> (if x + real SHAPE_SIDE_LENGTH < 0
                          then \<lceil>x + real SHAPE_SIDE_LENGTH\<rceil>
                          else \<lfloor>x + real SHAPE_SIDE_LENGTH\<rfloor>)
             \<and> (if y < 0 then \<lceil>y\<rceil> else \<lfloor>y\<rfloor>) \<le> int j
             \<and> int j \<le> (if y + real SHAPE_SIDE_LENGTH < 0
                          then \<lceil>y + real SHAPE_SIDE_LENGTH\<rceil>
                          else \<lfloor>y + real SHAPE_SIDE_LENGTH\<rfloor>)}"
    (is "?black = ?clip")
    unfolding IMAGE_WIDTH_def IMAGE_HEIGHT_def c_int_def [symmetric]
    by (auto simp: getpixel_draw_frame split: if_splits)
  have f: "x + real SHAPE_SIDE_LENGTH \<le> - 1 \<or> real IMAGE_WIDTH \<le> x
           \<or> y + real SHAPE_SIDE_LENGTH \<le> - 1 \<or> real IMAGE_HEIGHT \<le> y \<longrightarrow> ?black = {}"
  proof
    assume out: "x + real SHAPE_SIDE_LENGTH \<le> - 1 \<or> real IMAGE_WIDTH \<le> x
           \<or> y + real SHAPE_SIDE_LENGTH \<le> - 1 \<or> real IMAGE_HEIGHT \<le> y"
    have "?clip = {}"
    proof -
      { fix i j :: nat
        assume ij: "i < IMAGE_WIDTH" "j < IMAGE_HEIGHT"
        have "\<not> ((if x < 0 then \<lceil>x\<rceil> else \<lfloor>x\<rfloor>) \<le> int i
             \<and> int i \<le> (if x + real SHAPE_SIDE_LENGTH < 0
                          then \<lceil>x + real SHAPE_SIDE_LENGTH\<rceil>
                          else \<lfloor>x + real SHAPE_SIDE_LENGTH\<rfloor>)
             \<and> (if y < 0 then \<lceil>y\<rceil> else \<lfloor>y\<rfloor>) \<le> int j
             \<and> int j \<le> (if y + real SHAPE_SIDE_LENGTH < 0
                          then \<lceil>y + real SHAPE_SIDE_LENGTH\<rceil>
                          else \<lfloor>y + real SHAPE_SIDE_LENGTH\<rfloor>))"
          using out ij unfolding IMAGE_WIDTH_def IMAGE_HEIGHT_def
          by (auto split: if_splits; linarith)
      }
      then show ?thesis by auto
    qed
    with e show "?black = {}" by simp
  qed
  from res a b e f show ?thesis by blast
qed


text \<open>
  The position \<open>(20, -3)\<close> leaves the frame white; the position \<open>(-1/2, -1/2)\<close>
  paints the corner pixel.
\<close>

theorem draw_frame_clips_witness:
  "(\<exists>im. draw_frame (20, - 3) = Inr im
      \<and> real IMAGE_WIDTH \<le> 20
      \<and> image_mode im = ''1'' \<and> image_size im = (16, 16)
      \<and> map length (image_rows im) = replicate 16 16
      \<and> {(i, j). i < IMAGE_WIDTH \<and> j < IMAGE_HEIGHT \<and> getpixel im (i, j) = Black} = {})
   \<and> (\<exists>im. draw_frame (- 1 / 2, - 1 / 2) = Inr im
      \<and> map length (image_rows im) = replicate 16 16
      \<and> {(i, j). i < IMAGE_WIDTH \<and> j < IMAGE_HEIGHT \<and> getpixel im (i, j) = Black} = {(0, 0)})"
proof -
  have out: "real IMAGE_WIDTH \<le> 20" by (simp add: IMAGE_WIDTH_def)
  obtain im where im: "draw_frame (20, - 3) = Inr im" "image_mode im = ''1''"
      "image_size im = (IMAGE_WIDTH, IMAGE_HEIGHT)"
      "map length (image_rows im) = replicate IMAGE_HEIGHT IMAGE_WIDTH"
      "{(i, j). i < IMAGE_WIDTH \<and> j < IMAGE_HEIGHT \<and> getpixel im (i, j) = Black} = {}"
    using draw_frame_clips [of 20 "- 3"] out by blast
  obtain im' where im': "draw_frame (- 1 / 2, - 1 / 2) = Inr im'"
      "map length (image_rows im') = replicate IMAGE_HEIGHT IMAGE_WIDTH"
    and black: "{(i, j). i < IMAGE_WIDTH \<and> j < IMAGE_HEIGHT \<and> getpixel im' (i, j) = Black} =
          {(i, j). i < IMAGE_WIDTH \<and> j < IMAGE_HEIGHT
             \<and> (if (- 1 / 2 :: real) < 0 then \<lceil>- 1 / 2 :: real\<rceil> else \<lfloor>- 1 / 2 :: real\<rfloor>) \<le> int i
             \<and> int i \<le> (if - 1 / 2 + real SHAPE_SIDE_LENGTH < 0
                          then \<lceil>- 1 / 2 + real SHAPE_SIDE_LENGTH\<rceil>
                          else \<lfloor>- 1 / 2 + real SHAPE_SIDE_LENGTH\<rfloor>)
             \<and> (if (- 1 / 2 :: real) < 0 then \<lceil>- 1 / 2 :: real\<rceil> else \<lfloor>- 1 / 2 :: real\<rfloor>) \<le> int j
             \<and> int j \<le> (if - 1 / 2 + real SHAPE_SIDE_LENGTH < 0
                          then \<lceil>- 1 / 2 + real SHAPE_SIDE_LENGTH\<rceil>
                          else \<lfloor>- 1 / 2 + real SHAPE_SIDE_LENGTH\<rfloor>)}"
    using draw_frame_clips [of "- 1 / 2" "- 1 / 2"] by blast
  have up: "\<lceil>- (1 / 2) :: real\<rceil> = 0"
    by (simp add: ceiling_eq_iff)
  have "{(i, j). i < IMAGE_WIDTH \<and> j < IMAGE_HEIGHT \<and> getpixel im' (i, j) = Black} = {(0, 0)}"
    unfolding black by (auto simp: SHAPE_SIDE_LENGTH_def IMAGE_WIDTH_def IMAGE_HEIGHT_def up)
  with im im' out show ?thesis
    by (simp add: IMAGE_WIDTH_def IMAGE_HEIGHT_def)
qed

section \<open>The result of generate_sequence\<close>

lemma substeps_funpow:
  "substeps step k g e pv = ((\<lambda>(p, v). simulate_motion step p v g e (1 / 60)) ^^ k) pv"
proof (induction k arbitrary: pv)
  case 0
  show ?case by simp
next
  case (Suc k)
  obtain p v where pv: "pv = (p, v)" by (cases pv)
  show ?case
    unfolding pv by (simp add: Suc.IH funpow_swap1)
qed

lemma frames_unfolded:
  "frames step n fr g e pv (images, positions) =
     Inr (images @
            map (\<lambda>k. projr (draw_frame
                   (fst (fst (((\<lambda>(p, v). simulate_motion step p v g e (1 / 60)) ^^ (fr * Suc k)) pv)),
                    real IMAGE_HEIGHT
                      - snd (fst (((\<lambda>(p, v). simulate_motion step p v g e (1 / 60)) ^^ (fr * Suc k)) pv))
                      - real SHAPE_SIDE_LENGTH))) [0..<n],
          positions @
            map (\<lambda>k. fst (((\<lambda>(p, v). simulate_motion step p v g e (1 / 60)) ^^ (fr * Suc k)) pv))
              [0..<n])"
proof (induction n arbitrary: pv images positions)
  case 0
  show ?case by simp
next
  case (Suc n)
  let ?sub = "\<lambda>(p, v). simulate_motion step p v g e (1 / 60)"
  obtain p' v' where pv': "(?sub ^^ fr) pv = (p', v')" by (cases "(?sub ^^ fr) pv")
  have shift: "\<And>k. (?sub ^^ (fr * Suc k)) (p', v') = (?sub ^^ (fr * Suc (Suc k))) pv"
  proof -
    fix k
    have "(?sub ^^ (fr * Suc (Suc k))) pv = (?sub ^^ (fr * Suc k + fr)) pv"
      by (simp add: algebra_simps)
    also have "\<dots> = (?sub ^^ (fr * Suc k)) ((?sub ^^ fr) pv)"
      by (simp only: funpow_add o_apply)
    finally show "(?sub ^^ (fr * Suc k)) (p', v') = (?sub ^^ (fr * Suc (Suc k))) pv"
      by (simp add: pv')
  qed
  have first: "(?sub ^^ (fr * Suc 0)) pv = (p', v')" by (simp add: pv')
  have upt: "[0..<Suc n] = 0 # map Suc [0..<n]"
    by (simp add: upt_conv_Cons map_Suc_upt del: upt_Suc)
  obtain img where dr:
    "draw_frame (fst p', real IMAGE_HEIGHT - snd p' - real SHAPE_SIDE_LENGTH) = Inr img"
    using draw_frame_projr by blast
  have "frames step (Suc n) fr g e pv (images, positions) =
      frames step n fr g e (p', v')
        (images @ [projr (draw_frame (fst p', real IMAGE_HEIGHT - snd p' - real SHAPE_SIDE_LENGTH))],
         positions @ [p'])"
    by (simp add: substeps_funpow pv' dr del: funpow.simps)
  also note Suc.IH
  finally show ?case
    unfolding upt by (simp add: shift first o_def del: funpow.simps upt_Suc mult_Suc_right)
qed


text \<open>
  C2. generate_sequence returns as many frames and positions as \<open>sequence_length\<close>
  says. The position with index \<open>k\<close> is the one the stepper produced after
  \<open>frame_rate * (k + 1)\<close> steps, and the frame with index \<open>k\<close> is drawn from it after the
  conversion to image coordinates: \<open>x\<close> is kept, and \<open>y\<close> becomes
  \<open>y_image = IMAGE_HEIGHT - y - SHAPE_SIDE_LENGTH\<close>. The black pixels of the frame are
  those that draw_frame paints for \<open>(x, y_image)\<close>.
\<close>

theorem generate_sequence_image_coordinates:
  "\<exists>images positions.
      generate_sequence step n speed direction p0 g e fr = Inr (images, positions)
      \<and> length images = nat n \<and> length positions = nat n
      \<and> (\<forall>k < nat n.
           positions ! k =
             fst (((\<lambda>(p, v). simulate_motion step p v g e (1 / 60)) ^^ (nat fr * Suc k))
                    (p0, (speed * cos direction, - speed * sin direction)))
           \<and> (let (x, y) = positions ! k;
                   y_image = real IMAGE_HEIGHT - y - real SHAPE_SIDE_LENGTH
               in draw_frame (x, y_image) = Inr (images ! k)
                  \<and> (\<forall>i < 16. \<forall>j < 16.
                        getpixel (images ! k) (i, j) =
                          (if (if x < 0 then \<lceil>x\<rceil> else \<lfloor>x\<rfloor>) \<le> int i
                              \<and> int i \<le> (if x + real SHAPE_SIDE_LENGTH < 0
                                           then \<lceil>x + real SHAPE_SIDE_LENGTH\<rceil>
                                           else \<lfloor>x + real SHAPE_SIDE_LENGTH\<rfloor>)
                              \<and> (if y_image < 0 then \<lceil>y_image\<rceil> else \<lfloor>y_image\<rfloor>) \<le> int j
                              \<and> int j \<le> (if y_image + real SHAPE_SIDE_LENGTH < 0
                                           then \<lceil>y_image + real SHAPE_SIDE_LENGTH\<rceil>
                                           else \<lfloor>y_image + real SHAPE_SIDE_LENGTH\<rfloor>)
                           then Black else White))))"
proof -
  let ?sub = "\<lambda>(p, v). simulate_motion step p v g e (1 / 60)"
  let ?pos = "\<lambda>k. fst ((?sub ^^ (nat fr * Suc k))
                    (p0, (speed * cos direction, - speed * sin direction)))"
  let ?img = "\<lambda>k. projr (draw_frame (fst (?pos k),
                    real IMAGE_HEIGHT - snd (?pos k) - real SHAPE_SIDE_LENGTH))"
  let ?images = "map ?img [0..<nat n]"
  let ?positions = "map ?pos [0..<nat n]"
  have res: "generate_sequence step n speed direction p0 g e fr = Inr (?images, ?positions)"
    unfolding generate_sequence_def Let_def frames_unfolded by simp
  have len: "length ?images = nat n" "length ?positions = nat n" by simp_all
  have each: "\<forall>k < nat n.
           ?positions ! k = ?pos k
           \<and> (let (x, y) = ?positions ! k;
                   y_image = real IMAGE_HEIGHT - y - real SHAPE_SIDE_LENGTH
               in draw_frame (x, y_image) = Inr (?images ! k)
                  \<and> (\<forall>i < 16. \<forall>j < 16.
                        getpixel (?images ! k) (i, j) =
                          (if (if x < 0 then \<lceil>x\<rceil> else \<lfloor>x\<rfloor>) \<le> int i
                              \<and> int i \<le> (if x + real SHAPE_SIDE_LENGTH < 0
                                           then \<lceil>x + real SHAPE_SIDE_LENGTH\<rceil>
                                           else \<lfloor>x + real SHAPE_SIDE_LENGTH\<rfloor>)
                              \<and> (if y_image < 0 then \<lceil>y_image\<rceil> else \<lfloor>y_image\<rfloor>) \<le> int j
                              \<and> int j \<le> (if y_image + real SHAPE_SIDE_LENGTH < 0
                                           then \<lceil>y_image + real SHAPE_SIDE_LENGTH\<rceil>
                                           else \<lfloor>y_image + real SHAPE_SIDE_LENGTH\<rfloor>)
                           then Black else White)))"
  proof (intro allI impI)
    fix k assume k: "k < nat n"
    obtain x y where xy: "?pos k = (x, y)" by (cases "?pos k")
    have p: "?positions ! k = (x, y)" using k xy by simp
    have i: "?images ! k = projr (draw_frame (x, real IMAGE_HEIGHT - y - real SHAPE_SIDE_LENGTH))"
      using k xy by simp
    have dr: "draw_frame (x, real IMAGE_HEIGHT - y - real SHAPE_SIDE_LENGTH) = Inr (?images ! k)"
      unfolding i by (rule draw_frame_projr)
    have px: "\<forall>i < 16. \<forall>j < 16.
        getpixel (?images ! k) (i, j) =
          (if c_int x \<le> int i \<and> int i \<le> c_int (x + real SHAPE_SIDE_LENGTH)
              \<and> c_int (real IMAGE_HEIGHT - y - real SHAPE_SIDE_LENGTH) \<le> int j
              \<and> int j \<le> c_int (real IMAGE_HEIGHT - y - real SHAPE_SIDE_LENGTH
                                  + real SHAPE_SIDE_LENGTH)
           then Black else White)"
      unfolding i using getpixel_draw_frame by blast
    show "?positions ! k = ?pos k
           \<and> (let (x, y) = ?positions ! k;
                   y_image = real IMAGE_HEIGHT - y - real SHAPE_SIDE_LENGTH
               in draw_frame (x, y_image) = Inr (?images ! k)
                  \<and> (\<forall>i < 16. \<forall>j < 16.
                        getpixel (?images ! k) (i, j) =
                          (if (if x < 0 then \<lceil>x\<rceil> else \<lfloor>x\<rfloor>) \<le> int i
                              \<and> int i \<le> (if x + real SHAPE_SIDE_LENGTH < 0
                                           then \<lceil>x + real SHAPE_SIDE_LENGTH\<rceil>
                                           else \<lfloor>x + real SHAPE_SIDE_LENGTH\<rfloor>)
                              \<and> (if y_image < 0 then \<lceil>y_image\<rceil> else \<lfloor>y_image\<rfloor>) \<le> int j
                              \<and> int j \<le> (if y_image + real SHAPE_SIDE_LENGTH < 0
                                           then \<lceil>y_image + real SHAPE_SIDE_LENGTH\<rceil>
                                           else \<lfloor>y_image + real SHAPE_SIDE_LENGTH\<rfloor>)
                           then Black else White)))"
      unfolding p Let_def prod.case
      using dr px xy by (simp add: c_int_def)
  qed
  from res len each show ?thesis by blast
qed


lemma simulate_motion_free_flight:
  "simulate_motion free_flight (px, py) (vx, vy) g e dt =
     ((px + vx * dt, py + vy * dt), (vx, vy - g * dt))"
  by (simp add: simulate_motion_def Let_def free_flight_def scene_bodies scene_gravity
      the_body_def)

text \<open>
  Two frames over the solver without contacts, from \<open>(3, 5)\<close> with speed 60 to the
  right: the positions are \<open>(4, 5)\<close> and \<open>(5, 5)\<close>, drawn in row \<open>16 - 5 = 11\<close>.
\<close>

theorem generate_sequence_image_coordinates_witness:
  "\<exists>images positions.
      generate_sequence free_flight 2 60 0 (3, 5) 0 1 1 = Inr (images, positions)
      \<and> length images = 2 \<and> length positions = 2
      \<and> positions ! 0 = (4, 5) \<and> positions ! 1 = (5, 5)
      \<and> draw_frame (4, 11) = Inr (images ! 0) \<and> draw_frame (5, 11) = Inr (images ! 1)
      \<and> getpixel (images ! 0) (4, 11) = Black \<and> getpixel (images ! 0) (4, 5) = White
      \<and> getpixel (images ! 1) (5, 11) = Black \<and> getpixel (images ! 1) (4, 11) = White"
proof -
  let ?sub = "\<lambda>(p, v). simulate_motion free_flight p v 0 1 (1 / 60)"
  have s0: "(?sub ^^ (nat 1 * Suc 0)) ((3, 5), (60 * cos 0, - 60 * sin 0)) = ((4, 5), (60, 0))"
    by (simp add: simulate_motion_free_flight)
  have s1: "(?sub ^^ (nat 1 * Suc 1)) ((3, 5), (60 * cos 0, - 60 * sin 0)) = ((5, 5), (60, 0))"
    by (simp add: simulate_motion_free_flight)
  obtain images positions where
      res: "generate_sequence free_flight 2 60 0 (3, 5) 0 1 1 = Inr (images, positions)"
      and len: "length images = nat 2" "length positions = nat 2"
      and each: "\<forall>k < nat 2.
           positions ! k =
             fst ((?sub ^^ (nat 1 * Suc k)) ((3, 5), (60 * cos 0, - 60 * sin 0)))
           \<and> (let (x, y) = positions ! k;
                   y_image = real IMAGE_HEIGHT - y - real SHAPE_SIDE_LENGTH
               in draw_frame (x, y_image) = Inr (images ! k)
                  \<and> (\<forall>i < 16. \<forall>j < 16.
                        getpixel (images ! k) (i, j) =
                          (if (if x < 0 then \<lceil>x\<rceil> else \<lfloor>x\<rfloor>) \<le> int i
                              \<and> int i \<le> (if x + real SHAPE_SIDE_LENGTH < 0
                                           then \<lceil>x + real SHAPE_SIDE_LENGTH\<rceil>
                                           else \<lfloor>x + real SHAPE_SIDE_LENGTH\<rfloor>)
                              \<and> (if y_image < 0 then \<lceil>y_image\<rceil> else \<lfloor>y_image\<rfloor>) \<le> int j
                              \<and> int j \<le> (if y_image + real SHAPE_SIDE_LENGTH < 0
                                           then \<lceil>y_image + real SHAPE_SIDE_LENGTH\<rceil>
                                           else \<lfloor>y_image + real SHAPE_SIDE_LENGTH\<rfloor>)
                           then Black else White)))"
    using generate_sequence_image_coordinates [of free_flight 2 60 0 "(3, 5)" 0 1 1]
    by blast
  have k0: "(0::nat) < nat 2" and k1: "(1::nat) < nat 2" by simp_all
  have p0: "positions ! 0 = (4, 5)"
    using each k0 s0 by simp
  have p1: "positions ! 1 = (5, 5)"
    using each k1 s1 by simp
  have f0: "draw_frame (4, 11) = Inr (images ! 0)"
      "getpixel (images ! 0) (4, 11) = Black" "getpixel (images ! 0) (4, 5) = White"
    using each [rule_format, OF k0]
    by (simp_all add: p0 Let_def IMAGE_HEIGHT_def SHAPE_SIDE_LENGTH_def)
  have f1: "draw_frame (5, 11) = Inr (images ! 1)"
      "getpixel (images ! 1) (5, 11) = Black" "getpixel (images ! 1) (4, 11) = White"
    using each [rule_format, OF k1] p1
    by (auto simp add: Let_def IMAGE_HEIGHT_def SHAPE_SIDE_LENGTH_def)
  from res len p0 p1 f0 f1 show ?thesis by simp
qed

text \<open>
  C3. generate_sequence starts from the velocity
  \<open>(speed * cos direction, - speed * sin direction)\<close>. Frame \<open>k\<close> (counted from 0) is
  drawn after \<open>frame_rate * (k + 1)\<close> calls of simulate_motion in all, that is
  \<open>frame_rate\<close> further calls for every frame, each with time step \<open>1 / 60\<close> and each
  starting from the position and velocity the call before returned. The frame is drawn
  from the converted position; the position appended to the list of positions is the
  one simulate_motion returned, before the conversion.
\<close>

theorem generate_sequence_unfolded:
  "generate_sequence step n speed direction p0 g e fr =
     (let sub = (\<lambda>(p, v). simulate_motion step p v g e (1 / 60));
          v0 = (speed * cos direction, - speed * sin direction);
          pos = (\<lambda>k. fst ((sub ^^ (nat fr * Suc k)) (p0, v0)))
      in Inr (map (\<lambda>k. projr (draw_frame
                          (fst (pos k), real IMAGE_HEIGHT - snd (pos k) - real SHAPE_SIDE_LENGTH)))
                [0..<nat n],
              map pos [0..<nat n]))"
  unfolding generate_sequence_def Let_def frames_unfolded by simp

section \<open>A square at rest\<close>

lemma rest_stays_free_flight: "rest_stays free_flight"
  by (simp add: rest_stays_def free_flight_def scene_bodies scene_gravity the_body_def)

text \<open>
  The scenario \<open>generate_sequence(1, 0, 0, (8, 8), 0, 1, frame_rate=1)\<close>. What it
  returns is decided by the solver. With a solver that keeps a resting body at rest it
  returns one frame, with pixel \<open>(8, 16 - 8 - s)\<close> black and all others white, and the
  list of positions \<open>[(8, 8)]\<close>.
\<close>

lemma still_square:
  assumes "rest_stays step"
  shows "\<exists>frame. generate_sequence step 1 0 0 (8, 8) 0 1 1 = Inr ([frame], [(8, 8)])
           \<and> draw_frame (8, real IMAGE_HEIGHT - 8 - real SHAPE_SIDE_LENGTH) = Inr frame
           \<and> getpixel frame (8, 8) = Black
           \<and> (\<forall>i < 16. \<forall>j < 16. (i, j) \<noteq> (8, 8) \<longrightarrow> getpixel frame (i, j) = White)"
proof -
  let ?frame = "projr (draw_frame (8, 8))"
  have sm: "simulate_motion step (8, 8) (0, 0) 0 1 (1 / 60) = ((8, 8), (0, 0))"
    using assms by (simp add: rest_stays_def simulate_motion_def Let_def)
  have fr: "draw_frame (8, real IMAGE_HEIGHT - 8 - real SHAPE_SIDE_LENGTH) = Inr ?frame"
    using draw_frame_projr [of "(8, 8)"] by (simp add: IMAGE_HEIGHT_def SHAPE_SIDE_LENGTH_def)
  have "generate_sequence step 1 0 0 (8, 8) 0 1 1 = Inr ([?frame], [(8, 8)])"
    by (simp add: generate_sequence_def Let_def sm fr)
  moreover have "getpixel ?frame (8, 8) = Black"
    by (simp add: getpixel_draw_frame c_int_def SHAPE_SIDE_LENGTH_def)
  moreover have "\<forall>i < 16. \<forall>j < 16. (i, j) \<noteq> (8, 8) \<longrightarrow> getpixel ?frame (i, j) = White"
    by (auto simp: getpixel_draw_frame c_int_def SHAPE_SIDE_LENGTH_def)
  ultimately show ?thesis using fr by blast
qed

text \<open>
  A solver that keeps a resting body at rest also leaves a body where it is when that
  body rests far outside the box: the bounds on the positions that simulate_motion
  returns are the solver's, and the program adds none.
\<close>

lemma outside_stays_outside:
  assumes "rest_stays step"
  shows "simulate_motion step (100, 100) (0, 0) 0 1 (1 / 60) = ((100, 100), (0, 0))"
  using assms by (simp add: rest_stays_def simulate_motion_def Let_def)

section \<open>Determinism\<close>

lemma deterministic_run: "deterministic (run step)"
  by (simp add: deterministic_def run_def)

lemma simulate_motion_nd_det:
  assumes "deterministic R"
    and "simulate_motion_nd R p v g e dt r1" and "simulate_motion_nd R p v g e dt r2"
  shows "r1 = r2"
  using assms(2,3,1)
  by (auto simp: deterministic_def elim!: simulate_motion_nd.cases)

lemma substeps_nd_det:
  assumes "deterministic R"
  shows "substeps_nd R k g e pv r1 \<Longrightarrow> substeps_nd R k g e pv r2 \<Longrightarrow> r1 = r2"
proof (induction arbitrary: r2 rule: substeps_nd.induct)
  case (1 g e pv)
  then show ?case by (auto elim: substeps_nd.cases)
next
  case (2 p v g e pv' k pv'')
  from "2.prems"(1) obtain qv where a: "simulate_motion_nd R p v g e (1 / 60) qv"
      and b: "substeps_nd R k g e qv r2"
    by (auto elim: substeps_nd.cases)
  have "qv = pv'" using simulate_motion_nd_det [OF assms a "2.hyps"(1)] .
  with b "2.IH" show ?case by simp
qed


inductive_cases frames_nd_SucE: "frames_nd R (Suc n) fr g e pv acc r"

lemma frames_nd_det:
  assumes "deterministic R"
  shows "frames_nd R n fr g e pv acc r1 \<Longrightarrow> frames_nd R n fr g e pv acc r2 \<Longrightarrow> r1 = r2"
proof (induction arbitrary: r2 rule: frames_nd.induct)
  case (1 fr g e pv acc)
  then show ?case by (auto elim: frames_nd.cases)
next
  case (2 fr g e pv position velocity err n acc)
  note same = substeps_nd_det [OF assms "2.hyps"(1)]
  from "2.prems" "2.hyps"(2) show ?case
    by (auto elim!: frames_nd_SucE dest!: same)
next
  case (3 fr g e pv position velocity img n images positions result)
  note same = substeps_nd_det [OF assms "3.hyps"(1)]
  from "3.prems" "3.hyps"(2) "3.IH" show ?case
    by (auto elim!: frames_nd_SucE dest!: same)
qed

text \<open>
  C8. When the solver is deterministic (a step from the same space with the same time
  step has one result), generate_sequence is deterministic: two runs on the same
  arguments return the same frames and the same positions. The program itself draws
  no random number and keeps no state between runs.
\<close>

theorem generate_sequence_deterministic:
  assumes "deterministic R"
    and "generate_sequence_nd R n speed direction p0 g e fr r1"
    and "generate_sequence_nd R n speed direction p0 g e fr r2"
  shows "r1 = r2"
  using assms unfolding generate_sequence_nd_def by (rule frames_nd_det)


text \<open>Over a solver that is a function, the relation holds of the function's result.\<close>

lemma simulate_motion_nd_run:
  "simulate_motion_nd (run step) p v g e dt (simulate_motion step p v g e dt)"
  unfolding simulate_motion_def Let_def
  by (rule simulate_motion_nd.intros) (simp add: run_def)

lemma substeps_nd_run: "substeps_nd (run step) k g e pv (substeps step k g e pv)"
proof (induction k arbitrary: pv)
  case 0
  show ?case by (simp add: substeps_nd.intros)
next
  case (Suc k)
  obtain p v where pv: "pv = (p, v)" by (cases pv)
  show ?case
    unfolding pv substeps.simps
    by (rule substeps_nd.intros(2) [OF simulate_motion_nd_run Suc.IH])
qed

lemma frames_nd_run: "frames_nd (run step) n fr g e pv acc (frames step n fr g e pv acc)"
proof (induction n arbitrary: pv acc)
  case 0
  show ?case by (simp add: frames_nd.intros)
next
  case (Suc n)
  obtain images positions where acc: "acc = (images, positions)" by (cases acc)
  obtain position velocity where sub: "substeps step fr g e pv = (position, velocity)"
    by (cases "substeps step fr g e pv")
  have rel: "substeps_nd (run step) fr g e pv (position, velocity)"
    using substeps_nd_run [of step fr g e pv] by (simp add: sub)
  obtain img where dr:
    "draw_frame (fst position, real IMAGE_HEIGHT - snd position - real SHAPE_SIDE_LENGTH) = Inr img"
    using draw_frame_projr by blast
  have "frames step (Suc n) fr g e pv acc =
      frames step n fr g e (position, velocity) (images @ [img], positions @ [position])"
    by (simp add: acc sub dr)
  moreover have "frames_nd (run step) (Suc n) fr g e pv (images, positions)
      (frames step n fr g e (position, velocity) (images @ [img], positions @ [position]))"
    by (rule frames_nd.intros(3) [OF rel dr Suc.IH])
  ultimately show ?case by (simp add: acc)
qed

lemma generate_sequence_nd_run:
  "generate_sequence_nd (run step) n speed direction p0 g e fr
     (generate_sequence step n speed direction p0 g e fr)"
  by (simp add: generate_sequence_nd_def generate_sequence_def Let_def frames_nd_run)

text \<open>Two runs over the solver without contacts.\<close>

theorem generate_sequence_deterministic_witness:
  "deterministic (run free_flight)
   \<and> generate_sequence_nd (run free_flight) 2 3 0 (8, 8) 5 1 4
       (generate_sequence free_flight 2 3 0 (8, 8) 5 1 4)
   \<and> (\<exists>r. generate_sequence_nd (run free_flight) 2 3 0 (8, 8) 5 1 4 r
         \<and> r = generate_sequence free_flight 2 3 0 (8, 8) 5 1 4)"
  using generate_sequence_deterministic
    [OF deterministic_run generate_sequence_nd_run generate_sequence_nd_run,
     of free_flight 2 3 0 "(8, 8)" 5 1 4]
    deterministic_run generate_sequence_nd_run
  by blast

section \<open>The random scenario sampler\<close>

text \<open>
  C9 counts eight range pairs. generate_random_sequence samples six parameters, each
  between its own pair of bounds, so it has six.
\<close>

theorem not_eight_range_pairs: "length (range_pairs default_args) \<noteq> 8"
  by (simp add: range_pairs_def)

lemma uniform_between:
  assumes "(0::real) \<le> u" "u < 1" "low \<le> high"
  shows "low \<le> low + (high - low) * u \<and> low + (high - low) * u \<le> high"
proof
  have "0 \<le> (high - low) * u"
    using assms by (intro mult_nonneg_nonneg) simp_all
  then show "low \<le> low + (high - low) * u" by simp
  have "(high - low) * u \<le> (high - low) * 1"
    using assms by (intro mult_left_mono) simp_all
  then show "low + (high - low) * u \<le> high" by simp
qed

text \<open>
  C9, amended. generate_random_sequence has six range pairs (twelve bounds) next to
  \<open>sequence_length\<close> and \<open>frame_rate\<close>. Each of the six parameters is the result of
  its own call of \<open>np.random.uniform(min, max)\<close>, on the next number \<open>u\<close> that the
  generator draws: it is \<open>min + (max - min) * u\<close>, which lies between \<open>min\<close> and
  \<open>max\<close> when \<open>min \<le> max\<close>; the six values go to generate_sequence together with
  \<open>sequence_length\<close> and \<open>frame_rate\<close>. The defaults are length 10, frame rate 30,
  speed in \<open>[0, 10]\<close>, direction in \<open>[0, 2 * pi]\<close>, x and y in \<open>[0, 16]\<close>, gravity in
  \<open>[5, 10]\<close> and restitution in \<open>[0.5, 1]\<close>.
\<close>

theorem generate_random_sequence_samples:
  "length (range_pairs a) = 6
   \<and> generate_random_sequence step a r =
       (generate_sequence step (sequence_length a) (sample a r 0) (sample a r 1)
          (sample a r 2, sample a r 3) (sample a r 4) (sample a r 5) (frame_rate a),
        \<lambda>n. r (n + 6))
   \<and> ((\<forall>n. 0 \<le> r n \<and> r n < 1) \<longrightarrow>
        (\<forall>i < 6. fst (range_pairs a ! i) \<le> snd (range_pairs a ! i) \<longrightarrow>
           fst (range_pairs a ! i) \<le> sample a r i \<and> sample a r i \<le> snd (range_pairs a ! i)))
   \<and> generate_random_sequence step default_args r =
       (generate_sequence step 10 (10 * r 0) (2 * pi * r 1) (16 * r 2, 16 * r 3)
          (5 + 5 * r 4) (1 / 2 + r 5 / 2) 30,
        \<lambda>n. r (n + 6))"
proof (intro conjI)
  show "length (range_pairs a) = 6" by (simp add: range_pairs_def)
  show "generate_random_sequence step a r =
       (generate_sequence step (sequence_length a) (sample a r 0) (sample a r 1)
          (sample a r 2, sample a r 3) (sample a r 4) (sample a r 5) (frame_rate a),
        \<lambda>n. r (n + 6))"
    by (simp add: generate_random_sequence_def uniform_def sample_def range_pairs_def
        eval_nat_numeral)
  show "(\<forall>n. 0 \<le> r n \<and> r n < 1) \<longrightarrow>
        (\<forall>i < 6. fst (range_pairs a ! i) \<le> snd (range_pairs a ! i) \<longrightarrow>
           fst (range_pairs a ! i) \<le> sample a r i \<and> sample a r i \<le> snd (range_pairs a ! i))"
    unfolding sample_def using uniform_between by blast
  show "generate_random_sequence step default_args r =
       (generate_sequence step 10 (10 * r 0) (2 * pi * r 1) (16 * r 2, 16 * r 3)
          (5 + 5 * r 4) (1 / 2 + r 5 / 2) 30,
        \<lambda>n. r (n + 6))"
    by (simp add: generate_random_sequence_def uniform_def default_args_def
        eval_nat_numeral algebra_simps)
qed

text \<open>With the default arguments and every draw equal to one half, gravity is 7.5.\<close>

theorem generate_random_sequence_samples_witness:
  "(\<forall>n. (0::real) \<le> (\<lambda>_. 1 / 2) n \<and> (\<lambda>_. 1 / 2 :: real) n < 1)
   \<and> fst (range_pairs default_args ! 4) \<le> snd (range_pairs default_args ! 4)
   \<and> range_pairs default_args ! 4 = (5, 10)
   \<and> sample default_args (\<lambda>_. 1 / 2) 4 = 15 / 2
   \<and> fst (range_pairs default_args ! 4) \<le> sample default_args (\<lambda>_. 1 / 2) 4
   \<and> sample default_args (\<lambda>_. 1 / 2) 4 \<le> snd (range_pairs default_args ! 4)"
proof -
  have draws: "\<forall>n. (0::real) \<le> (\<lambda>_. 1 / 2) n \<and> (\<lambda>_. 1 / 2 :: real) n < 1"
    by simp
  have pair: "range_pairs default_args ! 4 = (5, 10)"
    by (simp add: range_pairs_def default_args_def)
  have ordered: "fst (range_pairs default_args ! 4) \<le> snd (range_pairs default_args ! 4)"
    by (simp add: pair)
  have val: "sample default_args (\<lambda>_. 1 / 2) 4 = 15 / 2"
    by (simp add: sample_def pair)
  have four: "(4::nat) < 6" by simp
  from generate_random_sequence_samples [of default_args undefined "\<lambda>_. 1 / 2"] draws four ordered
  have "fst (range_pairs default_args ! 4) \<le> sample default_args (\<lambda>_. 1 / 2) 4
      \<and> sample default_args (\<lambda>_. 1 / 2) 4 \<le> snd (range_pairs default_args ! 4)"
    by blast
  with draws pair ordered val show ?thesis by blast
qed

end
